theory Spec2Isabelle
  imports Complex_Main "HOL-Library.Sublist"
begin

section \<open>Python text\<close>

text \<open>
  The REST layer in \<^verbatim>\<open>api.py\<close> works on Python \<^verbatim>\<open>str\<close> values. A text is a
  \<^typ>\<open>string\<close> here: a list of code points below 256. The character classes below are
  Python's (\<^verbatim>\<open>str.isspace\<close>, \<^verbatim>\<open>str.lower\<close>, the regex class \<^verbatim>\<open>\d\<close>, the digits
  \<^verbatim>\<open>int()\<close> accepts) cut down to that range.
\<close>

definition is_space :: "char \<Rightarrow> bool" where
  "is_space c =
     (let n = (of_char c :: nat)
      in (9 \<le> n \<and> n \<le> 13) \<or> (28 \<le> n \<and> n \<le> 32) \<or> n = 133 \<or> n = 160)"

definition is_digit :: "char \<Rightarrow> bool" where
  "is_digit c = (let n = (of_char c :: nat) in 48 \<le> n \<and> n \<le> 57)"

definition digit_val :: "char \<Rightarrow> nat" where
  "digit_val c = of_char c - 48"

definition digit_char :: "nat \<Rightarrow> char" where
  "digit_char d = ''0123456789'' ! d"

definition is_upper :: "char \<Rightarrow> bool" where
  "is_upper c =
     (let n = (of_char c :: nat)
      in (65 \<le> n \<and> n \<le> 90) \<or> (192 \<le> n \<and> n \<le> 222 \<and> n \<noteq> 215))"

text \<open>The lower-case partner of an upper-case code point below 256 is 32 above it: bit 5 set.\<close>

definition lower_char :: "char \<Rightarrow> char" where
  "lower_char c =
     (if is_upper c
      then Char (digit0 c) (digit1 c) (digit2 c) (digit3 c) (digit4 c) True (digit6 c) (digit7 c)
      else c)"

text \<open>\<^verbatim>\<open>s.lower()\<close>\<close>

definition lower :: "string \<Rightarrow> string" where
  "lower s = map lower_char s"

text \<open>\<^verbatim>\<open>needle in hay\<close> on two texts: \<^verbatim>\<open>needle\<close> occurs in \<^verbatim>\<open>hay\<close> as a contiguous run.\<close>

fun contains :: "string \<Rightarrow> string \<Rightarrow> bool" where
  "contains needle [] = (needle = [])"
| "contains needle (c # cs) = (prefix needle (c # cs) \<or> contains needle cs)"

text \<open>\<^verbatim>\<open>s.split(sep)\<close> with a one-character separator: every occurrence cuts, empty pieces stay.\<close>

fun split_on :: "char \<Rightarrow> string \<Rightarrow> string list" where
  "split_on sep [] = [[]]"
| "split_on sep (c # cs) =
     (if c = sep then [] # split_on sep cs
      else (case split_on sep cs of
              [] \<Rightarrow> [[c]]
            | w # ws \<Rightarrow> (c # w) # ws))"

text \<open>\<^verbatim>\<open>s.split()\<close>: the maximal runs of characters that are not white space.\<close>

fun split_ws :: "string \<Rightarrow> string list" where
  "split_ws [] = []"
| "split_ws (c # cs) =
     (if is_space c then split_ws cs
      else (case cs of
              [] \<Rightarrow> [[c]]
            | d # ds \<Rightarrow>
                if is_space d then [c] # split_ws cs
                else (case split_ws cs of
                        [] \<Rightarrow> [[c]]
                      | w # ws \<Rightarrow> (c # w) # ws)))"

text \<open>\<^verbatim>\<open>s.strip()\<close>\<close>

definition strip :: "string \<Rightarrow> string" where
  "strip s = rev (dropWhile is_space (rev (dropWhile is_space s)))"


text \<open>\<^verbatim>\<open>str(n)\<close> for an integer: decimal digits, a minus sign in front of a negative number.\<close>

fun digits_of :: "nat \<Rightarrow> string" where
  "digits_of n =
     (if n < 10 then [digit_char n] else digits_of (n div 10) @ [digit_char (n mod 10)])"

declare digits_of.simps [simp del]

definition str_int :: "int \<Rightarrow> string" where
  "str_int i = (if i < 0 then CHR ''-'' # digits_of (nat (- i)) else digits_of (nat i))"

text \<open>
  \<^verbatim>\<open>re.search(r'BK\d{4}', s)\<close>: the leftmost place where \<^verbatim>\<open>BK\<close> and four digits stand;
  \<^verbatim>\<open>match.group()\<close> is those six characters.
\<close>

definition matches_bk :: "string \<Rightarrow> bool" where
  "matches_bk s =
     (prefix ''BK'' s \<and> 6 \<le> length s \<and> list_all is_digit (take 4 (drop 2 s)))"

fun re_search_bk :: "string \<Rightarrow> string option" where
  "re_search_bk [] = None"
| "re_search_bk (c # cs) =
     (if matches_bk (c # cs) then Some (take 6 (c # cs)) else re_search_bk cs)"

section \<open>Exceptions\<close>

text \<open>
  Every exception the handlers can meet is a value. \<open>CollaboratorError m\<close> is an exception
  raised inside a collaborator (the booking manager, the monitoring sink, the construction
  of the bot), with \<^verbatim>\<open>str(e) = m\<close>; the others are raised by the built-in operations the
  handlers call themselves.
\<close>

datatype error =
    CollaboratorError string
  | AttributeError string
  | IndexError
  | ValueError string
  | ZeroDivisionError

text \<open>
  \<^verbatim>\<open>repr(s)\<close> of a text, as it appears in the message of a \<^verbatim>\<open>ValueError\<close>: quoted with
  \<^verbatim>\<open>'\<close> unless the text has a \<^verbatim>\<open>'\<close> and no \<^verbatim>\<open>"\<close>, the quote and the backslash escaped, tab,
  newline and carriage return by letter, other unprintable code points as \<^verbatim>\<open>\xhh\<close>.
\<close>

definition printable :: "char \<Rightarrow> bool" where
  "printable c =
     (let n = (of_char c :: nat) in (32 \<le> n \<and> n < 127) \<or> (161 \<le> n \<and> n \<noteq> 173))"

definition hex_digit :: "nat \<Rightarrow> char" where
  "hex_digit d = ''0123456789abcdef'' ! d"

definition repr_char :: "char \<Rightarrow> char \<Rightarrow> string" where
  "repr_char q c =
     (if c = q \<or> c = CHR 0x5C then [CHR 0x5C, c]
      else if c = CHR 0x09 then [CHR 0x5C, CHR ''t'']
      else if c = CHR 0x0A then [CHR 0x5C, CHR ''n'']
      else if c = CHR 0x0D then [CHR 0x5C, CHR ''r'']
      else if printable c then [c]
      else [CHR 0x5C, CHR ''x'', hex_digit (of_char c div 16), hex_digit (of_char c mod 16)])"

definition py_repr :: "string \<Rightarrow> string" where
  "py_repr s =
     (let q = (if CHR 0x27 \<in> set s \<and> CHR 0x22 \<notin> set s then CHR 0x22 else CHR 0x27)
      in q # concat (map (repr_char q) s) @ [q])"

text \<open>\<^verbatim>\<open>str(e)\<close>\<close>

fun str_exc :: "error \<Rightarrow> string" where
  "str_exc (CollaboratorError m) = m"
| "str_exc (AttributeError ty) =
     [CHR 0x27] @ ty @ [CHR 0x27] @ '' object has no attribute '' @ [CHR 0x27] @ ''lower'' @ [CHR 0x27]"
| "str_exc IndexError = ''list index out of range''"
| "str_exc (ValueError m) = m"
| "str_exc ZeroDivisionError = ''division by zero''"

text \<open>
  \<^verbatim>\<open>int(s)\<close> on a text: white space around the literal is dropped, then an optional sign and
  decimal digits, single underscores allowed between digits. Anything else raises
  \<^verbatim>\<open>ValueError\<close>. (The interpreter's configurable length limit on huge literals is left out.)
\<close>

fun parse_digits :: "nat \<Rightarrow> string \<Rightarrow> nat option" where
  "parse_digits acc [] = Some acc"
| "parse_digits acc (c # cs) =
     (if is_digit c then parse_digits (acc * 10 + digit_val c) cs
      else if c = CHR ''_'' then
        (case cs of
           [] \<Rightarrow> None
         | d # ds \<Rightarrow> if is_digit d then parse_digits (acc * 10 + digit_val d) ds else None)
      else None)"

definition parse_unsigned :: "string \<Rightarrow> nat option" where
  "parse_unsigned s =
     (case s of
        [] \<Rightarrow> None
      | c # cs \<Rightarrow> if is_digit c then parse_digits (digit_val c) cs else None)"

definition parse_int :: "string \<Rightarrow> int option" where
  "parse_int s =
     (case s of
        [] \<Rightarrow> None
      | c # cs \<Rightarrow>
          if c = CHR ''+'' then map_option int (parse_unsigned cs)
          else if c = CHR ''-'' then map_option (\<lambda>n. - int n) (parse_unsigned cs)
          else map_option int (parse_unsigned s))"

definition py_int :: "string \<Rightarrow> error + int" where
  "py_int s =
     (case parse_int (strip s) of
        None \<Rightarrow> Inl (ValueError (''invalid literal for int() with base 10: '' @ py_repr s))
      | Some i \<Rightarrow> Inr i)"


text \<open>\<^verbatim>\<open>xs[i]\<close> for \<^verbatim>\<open>i \<ge> 0\<close> and \<^verbatim>\<open>xs[-1]\<close>: out of range raises \<^verbatim>\<open>IndexError\<close>.\<close>

definition item :: "'a list \<Rightarrow> nat \<Rightarrow> error + 'a" where
  "item xs i = (if i < length xs then Inr (xs ! i) else Inl IndexError)"

definition last_item :: "'a list \<Rightarrow> error + 'a" where
  "last_item xs = (case xs of [] \<Rightarrow> Inl IndexError | _ # _ \<Rightarrow> Inr (last xs))"

text \<open>Sequencing of steps that may raise: the first exception ends the run.\<close>

definition and_then :: "error + 'a \<Rightarrow> ('a \<Rightarrow> error + 'b) \<Rightarrow> error + 'b" where
  "and_then r f = (case r of Inl e \<Rightarrow> Inl e | Inr x \<Rightarrow> f x)"

section \<open>Values, booking records and the ledger\<close>

text \<open>
  The booking manager keeps \<^verbatim>\<open>bookings\<close>, a dict from booking id to a dict of fields. The
  field values are untyped in the source (\<^verbatim>\<open>Dict[str, Any]\<close>); \<open>pyval\<close> has the kinds of
  value the handlers build or compare. A dict is an association list in insertion order,
  read with \<^const>\<open>map_of\<close>.
\<close>

datatype pyval =
    PNone
  | PBool bool
  | PInt int
  | PStr string
  | PDict "(string \<times> pyval) list"

type_synonym details = "(string \<times> pyval) list"

type_synonym ledger = "(string \<times> details) list"

text \<open>\<^verbatim>\<open>d.get(key, default)\<close>\<close>

definition dict_get :: "(string \<times> 'v) list \<Rightarrow> string \<Rightarrow> 'v \<Rightarrow> 'v" where
  "dict_get d key dflt = (case map_of d key of None \<Rightarrow> dflt | Some v \<Rightarrow> v)"

fun type_name :: "pyval \<Rightarrow> string" where
  "type_name PNone = ''NoneType''"
| "type_name (PBool b) = ''bool''"
| "type_name (PInt i) = ''int''"
| "type_name (PStr s) = ''str''"
| "type_name (PDict d) = ''dict''"

text \<open>\<^verbatim>\<open>v.lower()\<close> on an untyped value: only a text has the method.\<close>

fun py_lower :: "pyval \<Rightarrow> error + string" where
  "py_lower (PStr s) = Inr (lower s)"
| "py_lower v = Inl (AttributeError (type_name v))"

text \<open>An optional text argument as a value (\<^verbatim>\<open>None\<close> when absent).\<close>

definition opt_val :: "string option \<Rightarrow> pyval" where
  "opt_val s = (case s of None \<Rightarrow> PNone | Some t \<Rightarrow> PStr t)"

text \<open>Truth value of an optional text: \<^verbatim>\<open>None\<close> and the empty text are false.\<close>

definition truthy :: "string option \<Rightarrow> bool" where
  "truthy s = (case s of None \<Rightarrow> False | Some t \<Rightarrow> t \<noteq> [])"

section \<open>Collaborators\<close>

text \<open>
  \<^verbatim>\<open>booking_manager.py\<close> is a collaborator of the REST layer: the handlers see its
  \<^verbatim>\<open>bookings\<close> attribute and call five of its methods, each of which answers with a text
  or raises, and may change the manager. The manager is a parameter of every handler: its
  state is \<open>'s\<close>, and a call returns the outcome together with the state it leaves.
\<close>

record 's booking_manager =
  bookings :: "'s \<Rightarrow> ledger"
  process_user_input :: "string \<Rightarrow> 's \<Rightarrow> (error + string) \<times> 's"
  bm_create_booking :: "details \<Rightarrow> 's \<Rightarrow> (error + string) \<times> 's"
  bm_cancel_booking :: "string \<Rightarrow> 's \<Rightarrow> (error + string) \<times> 's"
  bm_search_bookings :: "string \<Rightarrow> 's \<Rightarrow> (error + string) \<times> 's"
  get_booking_stats :: "'s \<Rightarrow> (error + string) \<times> 's"

datatype event =
    Event string "(string \<times> pyval) list"
  | ErrorEvent error "(string \<times> pyval) list"

record session =
  created_at :: nat
  message_count :: int
  last_activity :: "nat option"

text \<open>
  What the handlers share: the manager inside \<^verbatim>\<open>bot\<close>, what the monitoring sink has
  received, and the module-level \<^verbatim>\<open>sessions\<close> dict.
\<close>

record 's api_state =
  mgr_state :: 's
  mon_log :: "event list"
  sessions :: "string \<rightharpoonup> session"

text \<open>
  Modelled from the spec: \<^verbatim>\<open>monitoring.py\<close> (\<^verbatim>\<open>MonitoringManager.track_event\<close>,
  \<^verbatim>\<open>track_error\<close>) is missing from the sources. Section 6 of the spec has the observability
  sink receive structured events, and error events with operation name and context: a call
  hands the event over and returns.
\<close>

definition track_event :: "string \<Rightarrow> (string \<times> pyval) list \<Rightarrow> 's api_state \<Rightarrow> 's api_state" where
  "track_event name props st = st\<lparr>mon_log := mon_log st @ [Event name props]\<rparr>"

definition track_error :: "error \<Rightarrow> (string \<times> pyval) list \<Rightarrow> 's api_state \<Rightarrow> 's api_state" where
  "track_error e ctx st = st\<lparr>mon_log := mon_log st @ [ErrorEvent e ctx]\<rparr>"




section \<open>Request and response models\<close>



record BookingRequest =
  rq_name :: string
  rq_contact :: string
  rq_date :: string
  rq_time :: string
  rq_guests :: int
  rq_special_requirements :: "string option"

record BookingResponse =
  br_booking_id :: "string option"
  br_success :: bool
  br_message :: string
  br_booking_data :: "details option"
  br_error :: "string option"

record BookingDetails =
  bd_booking_id :: string
  bd_name :: pyval
  bd_contact :: pyval
  bd_date :: pyval
  bd_time :: pyval
  bd_guests :: pyval
  bd_special_requirements :: pyval
  bd_status :: pyval
  bd_created_at :: pyval
  bd_modified_at :: pyval
  bd_cancelled_at :: pyval

record BookingListResponse =
  bl_bookings :: "BookingDetails list"
  bl_total_count :: nat
  bl_success :: "bool option"
  bl_error :: "string option"

record 'f stats =
  total_bookings :: int
  confirmed_bookings :: int
  cancelled_bookings :: int
  total_guests :: int
  today_bookings :: int
  success_rate :: 'f


section \<open>The handlers of api.py\<close>

text \<open>
  A handler takes the manager, its request and the shared state, and yields either a
  response (\<open>Inr\<close>) or an exception that leaves the handler (\<open>Inl\<close>) and reaches the
  transport layer, together with the state it leaves. Each is the source's \<^verbatim>\<open>try\<close> body
  followed by its \<^verbatim>\<open>except Exception\<close> branch. The chat handler is given the monitoring sink
  as a parameter; the other handlers report to the recording sink of section 6.
\<close>

subsection \<open>The dependency get_bot\<close>



subsection \<open>POST /chat\<close>










subsection \<open>POST /bookings\<close>

text \<open>The dict the handler builds from the request and hands to the manager.\<close>

definition booking_data :: "BookingRequest \<Rightarrow> details" where
  "booking_data request =
     [(''name'', PStr (rq_name request)),
      (''contact'', PStr (rq_contact request)),
      (''date'', PStr (rq_date request)),
      (''time'', PStr (rq_time request)),
      (''guests'', PStr (str_int (rq_guests request))),
      (''special_requirements'',
         PStr (if truthy (rq_special_requirements request)
               then (case rq_special_requirements request of Some s \<Rightarrow> s | None \<Rightarrow> [])
               else []))]"

text \<open>\<^verbatim>\<open>request.dict()\<close>, as the error context.\<close>

definition request_dict :: "BookingRequest \<Rightarrow> details" where
  "request_dict request =
     [(''name'', PStr (rq_name request)),
      (''contact'', PStr (rq_contact request)),
      (''date'', PStr (rq_date request)),
      (''time'', PStr (rq_time request)),
      (''guests'', PInt (rq_guests request)),
      (''special_requirements'', opt_val (rq_special_requirements request))]"

text \<open>The response built from the manager's text \<open>result\<close> and the ledger after the call.\<close>

definition create_response :: "string \<Rightarrow> ledger \<Rightarrow> BookingResponse" where
  "create_response result ledger =
     (let booking_id = (if contains ''Booking created successfully'' result
                        then re_search_bk result else None)
      in \<lparr>br_booking_id = booking_id,
          br_success = contains ''Booking created successfully'' result,
          br_message = result,
          br_booking_data = (if truthy booking_id
                             then (case booking_id of Some b \<Rightarrow> map_of ledger b | None \<Rightarrow> None)
                             else None),
          br_error = None\<rparr>)"

definition create_booking ::
  "'s booking_manager \<Rightarrow> BookingRequest \<Rightarrow> 's api_state
    \<Rightarrow> error + (BookingResponse \<times> 's api_state)" where
  "create_booking bm request st =
     (case bm_create_booking bm (booking_data request) (mgr_state st) of
        (Inr result, m) \<Rightarrow>
          Inr (create_response result (bookings bm m), st\<lparr>mgr_state := m\<rparr>)
      | (Inl e, m) \<Rightarrow>
          Inr (\<lparr>br_booking_id = None, br_success = False,
                br_message = ''Error creating booking: '' @ str_exc e,
                br_booking_data = None, br_error = Some (str_exc e)\<rparr>,
               track_error e
                 [(''operation'', PStr ''create_booking''),
                  (''booking_data'', PDict (request_dict request))]
                 (st\<lparr>mgr_state := m\<rparr>)))"

subsection \<open>GET /bookings\<close>

text \<open>\<^verbatim>\<open>BookingDetails(booking_id=booking_id, name=details.get('name', ''), ...)\<close>\<close>

definition booking_details :: "string \<Rightarrow> details \<Rightarrow> BookingDetails" where
  "booking_details booking_id details =
     \<lparr>bd_booking_id = booking_id,
      bd_name = dict_get details ''name'' (PStr []),
      bd_contact = dict_get details ''contact'' (PStr []),
      bd_date = dict_get details ''date'' (PStr []),
      bd_time = dict_get details ''time'' (PStr []),
      bd_guests = dict_get details ''guests'' (PInt 0),
      bd_special_requirements = dict_get details ''special_requirements'' (PStr []),
      bd_status = dict_get details ''status'' (PStr []),
      bd_created_at = dict_get details ''created_at'' (PStr []),
      bd_modified_at = dict_get details ''modified_at'' PNone,
      bd_cancelled_at = dict_get details ''cancelled_at'' PNone\<rparr>"

text \<open>
  \<^verbatim>\<open>status and details.get('status', '').lower() != status.lower()\<close>: whether the status filter
  skips the record. With no status, or the empty one, \<^verbatim>\<open>lower\<close> is not called.
\<close>

definition status_skips :: "string option \<Rightarrow> details \<Rightarrow> error + bool" where
  "status_skips status details =
     (if truthy status
      then and_then (py_lower (dict_get details ''status'' (PStr [])))
             (\<lambda>l. Inr (l \<noteq> lower (case status of Some s \<Rightarrow> s | None \<Rightarrow> [])))
      else Inr False)"

text \<open>\<^verbatim>\<open>date and details.get('date', '') != date\<close>\<close>

definition date_skips :: "string option \<Rightarrow> details \<Rightarrow> bool" where
  "date_skips date details =
     (truthy date \<and>
      dict_get details ''date'' (PStr []) \<noteq> PStr (case date of Some d \<Rightarrow> d | None \<Rightarrow> []))"

text \<open>The loop over \<^verbatim>\<open>bookings_dict.items()\<close>; \<open>acc\<close> is the list \<^verbatim>\<open>bookings\<close> built so far.\<close>

fun list_loop ::
  "string option \<Rightarrow> string option \<Rightarrow> ledger \<Rightarrow> BookingDetails list
    \<Rightarrow> error + BookingDetails list" where
  "list_loop status date [] acc = Inr acc"
| "list_loop status date ((booking_id, details) # rest) acc =
     and_then (status_skips status details)
       (\<lambda>skip. if skip then list_loop status date rest acc
               else if date_skips date details then list_loop status date rest acc
               else list_loop status date rest (acc @ [booking_details booking_id details]))"

definition list_bookings ::
  "'s booking_manager \<Rightarrow> string option \<Rightarrow> string option \<Rightarrow> 's api_state
    \<Rightarrow> error + (BookingListResponse \<times> 's api_state)" where
  "list_bookings bm status date st =
     (case list_loop status date (bookings bm (mgr_state st)) [] of
        Inr bs \<Rightarrow>
          Inr (\<lparr>bl_bookings = bs, bl_total_count = length bs,
                bl_success = None, bl_error = None\<rparr>, st)
      | Inl e \<Rightarrow>
          Inr (\<lparr>bl_bookings = [], bl_total_count = 0,
                bl_success = Some False, bl_error = Some (str_exc e)\<rparr>,
               track_error e [(''operation'', PStr ''list_bookings'')] st))"

subsection \<open>GET /bookings/{booking_id}\<close>

definition get_booking ::
  "'s booking_manager \<Rightarrow> string \<Rightarrow> 's api_state
    \<Rightarrow> error + (BookingResponse \<times> 's api_state)" where
  "get_booking bm booking_id st =
     (case map_of (bookings bm (mgr_state st)) booking_id of
        None \<Rightarrow>
          Inr (\<lparr>br_booking_id = None, br_success = False,
                br_message = ''Booking '' @ booking_id @ '' not found'',
                br_booking_data = None, br_error = Some ''Booking not found''\<rparr>, st)
      | Some details \<Rightarrow>
          Inr (\<lparr>br_booking_id = Some booking_id, br_success = True,
                br_message = ''Booking details retrieved successfully'',
                br_booking_data = Some details, br_error = None\<rparr>, st))"

subsection \<open>DELETE /bookings/{booking_id}\<close>


subsection \<open>POST /bookings/search\<close>

text \<open>
  One turn of the loop over the lines of the manager's text: a line that is not blank and
  has a colon names a booking id, the last word before the first colon; the id counts when
  the ledger has it.
\<close>

fun search_loop :: "ledger \<Rightarrow> string list \<Rightarrow> BookingDetails list \<Rightarrow> error + BookingDetails list" where
  "search_loop ledger [] acc = Inr acc"
| "search_loop ledger (line # lines) acc =
     (if strip line \<noteq> [] \<and> contains '':'' line
      then and_then (item (split_on CHR '':'' line) 0)
             (\<lambda>head. and_then (last_item (split_ws head))
                (\<lambda>booking_id.
                   case map_of ledger booking_id of
                     Some details \<Rightarrow>
                       search_loop ledger lines (acc @ [booking_details booking_id details])
                   | None \<Rightarrow> search_loop ledger lines acc))
      else search_loop ledger lines acc)"

definition search_parse :: "string \<Rightarrow> ledger \<Rightarrow> error + BookingDetails list" where
  "search_parse result ledger =
     (if contains ''Search Results'' result
      then search_loop ledger (drop 1 (split_on (CHR 0x0A) result)) []
      else Inr [])"

definition search_bookings ::
  "'s booking_manager \<Rightarrow> string \<Rightarrow> 's api_state
    \<Rightarrow> error + (BookingListResponse \<times> 's api_state)" where
  "search_bookings bm query st =
     (case bm_search_bookings bm query (mgr_state st) of
        (Inr result, m) \<Rightarrow>
          (case search_parse result (bookings bm m) of
             Inr bs \<Rightarrow>
               Inr (\<lparr>bl_bookings = bs, bl_total_count = length bs,
                     bl_success = None, bl_error = None\<rparr>, st\<lparr>mgr_state := m\<rparr>)
           | Inl e \<Rightarrow>
               Inr (\<lparr>bl_bookings = [], bl_total_count = 0,
                     bl_success = Some False, bl_error = Some (str_exc e)\<rparr>,
                    track_error e
                      [(''operation'', PStr ''search_bookings''), (''query'', PStr query)]
                      (st\<lparr>mgr_state := m\<rparr>)))
      | (Inl e, m) \<Rightarrow>
          Inr (\<lparr>bl_bookings = [], bl_total_count = 0,
                bl_success = Some False, bl_error = Some (str_exc e)\<rparr>,
               track_error e
                 [(''operation'', PStr ''search_bookings''), (''query'', PStr query)]
                 (st\<lparr>mgr_state := m\<rparr>)))"

subsection \<open>GET /stats\<close>






section \<open>The ledger and the query engine of the design\<close>

text \<open>
  Modelled from the spec: \<^verbatim>\<open>booking_manager.py\<close>, which holds the ledger's search and
  statistics, is missing from the sources. The definitions of this section follow sections
  3 and 4.3 of the spec: a booking is a fixed-shape record, the ledger is the sequence of
  bookings in creation order.
\<close>

datatype status = Confirmed | Cancelled

record Booking =
  bk_id :: string
  bk_name :: string
  bk_contact :: string
  bk_date :: string
  bk_time :: string
  bk_guests :: nat
  bk_special_requirements :: string
  bk_status :: status
  bk_created_at :: nat
  bk_modified_at :: "nat option"
  bk_cancelled_at :: "nat option"

record Statistics =
  total :: nat
  confirmed_count :: nat
  cancelled_count :: nat
  st_total_guests :: nat
  today_count :: nat
  st_success_rate :: rat

text \<open>
  Modelled from the spec: the division of \<open>success_rate\<close>. Division by zero is a fault, as
  in the source language; the quotient is an exact rational (rounding to a float is not
  represented).
\<close>

definition true_div :: "nat \<Rightarrow> nat \<Rightarrow> error + rat" where
  "true_div a b = (if b = 0 then Inl ZeroDivisionError else Inr (of_nat a / of_nat b))"

text \<open>
  Modelled from the spec: \<open>stats()\<close> of section 4.3. \<open>today\<close> is the current calendar date.
\<close>

definition stats :: "string \<Rightarrow> Booking list \<Rightarrow> error + Statistics" where
  "stats today ledger =
     (let n = length ledger;
          confirmed = filter (\<lambda>b. bk_status b = Confirmed) ledger;
          cancelled = filter (\<lambda>b. bk_status b = Cancelled) ledger
      in and_then (if n = 0 then Inr 0
                   else and_then (true_div (length confirmed) n) (\<lambda>q. Inr (q * 100)))
           (\<lambda>rate. Inr \<lparr>total = n,
                        confirmed_count = length confirmed,
                        cancelled_count = length cancelled,
                        st_total_guests = sum_list (map bk_guests confirmed),
                        today_count = length (filter (\<lambda>b. bk_date b = today) ledger),
                        st_success_rate = rate\<rparr>))"

text \<open>
  Modelled from the spec: \<open>search(query)\<close> of section 4.3. A booking matches when one of
  the five text fields contains the query, letter case aside; the empty query is answered
  with the empty sequence.
\<close>

definition matches_query :: "string \<Rightarrow> Booking \<Rightarrow> bool" where
  "matches_query query b =
     (let q = lower query
      in contains q (lower (bk_name b)) \<or> contains q (lower (bk_contact b)) \<or>
         contains q (lower (bk_date b)) \<or> contains q (lower (bk_time b)) \<or>
         contains q (lower (bk_special_requirements b)))"

definition search :: "string \<Rightarrow> Booking list \<Rightarrow> Booking list" where
  "search query ledger = (if query = [] then [] else filter (matches_query query) ledger)"

section \<open>A manager to run the handlers on\<close>

text \<open>
  A manager whose state is its ledger and whose every call answers with the given outcome
  and leaves the ledger as it is. It stands for the collaborator where a handler is
  evaluated on a concrete input.
\<close>

definition fixed_manager :: "error + string \<Rightarrow> ledger booking_manager" where
  "fixed_manager outcome =
     \<lparr>bookings = (\<lambda>l. l),
      process_user_input = (\<lambda>text l. (outcome, l)),
      bm_create_booking = (\<lambda>fields l. (outcome, l)),
      bm_cancel_booking = (\<lambda>booking_id l. (outcome, l)),
      bm_search_bookings = (\<lambda>query l. (outcome, l)),
      get_booking_stats = (\<lambda>l. (outcome, l))\<rparr>"

definition start :: "ledger \<Rightarrow> ledger api_state" where
  "start l = \<lparr>mgr_state = l, mon_log = [], sessions = Map.empty\<rparr>"

definition alice :: details where
  "alice =
     [(''name'', PStr ''Alice''), (''contact'', PStr ''a@x.com''),
      (''date'', PStr ''2024-06-01''), (''time'', PStr ''19:00''),
      (''guests'', PStr ''2''), (''special_requirements'', PStr []),
      (''status'', PStr ''confirmed''), (''created_at'', PStr ''2024-05-30T10:00:00'')]"

definition bob :: details where
  "bob =
     [(''name'', PStr ''Bob''), (''contact'', PStr ''b@x.com''),
      (''date'', PStr ''2024-06-02''), (''time'', PStr ''20:00''),
      (''guests'', PStr ''3''), (''special_requirements'', PStr ''window''),
      (''status'', PStr ''cancelled''), (''created_at'', PStr ''2024-05-30T11:00:00''),
      (''cancelled_at'', PStr ''2024-05-31T09:00:00'')]"

text \<open>
  A manager that stores the dict it is handed under the given identifier, with status
  \<^verbatim>\<open>confirmed\<close>, and reports the identifier in its message.
\<close>

definition storing_manager :: "string \<Rightarrow> ledger booking_manager" where
  "storing_manager booking_id =
     (fixed_manager (Inr []))
       \<lparr>bm_create_booking :=
          (\<lambda>fields l.
             (Inr (''Booking created successfully! Your booking ID is '' @ booking_id),
              l @ [(booking_id, fields @ [(''status'', PStr ''confirmed'')])]))\<rparr>"




definition alice_request :: BookingRequest where
  "alice_request =
     \<lparr>rq_name = ''Alice'', rq_contact = ''a@x.com'', rq_date = ''2024-06-01'',
      rq_time = ''19:00'', rq_guests = 2, rq_special_requirements = None\<rparr>"

section \<open>The list filters in words, and the text the statistics are read from\<close>

text \<open>
  What it means for a record to pass the two optional filters of \<^verbatim>\<open>list_bookings\<close>, said
  directly: a filter that is absent or the empty text lets every record pass; a status
  passes when the record's status is a text equal to it letter case aside, a date when the
  record's date is that text.
\<close>

definition status_matches :: "string option \<Rightarrow> details \<Rightarrow> bool" where
  "status_matches status details =
     (case status of
        None \<Rightarrow> True
      | Some s \<Rightarrow>
          s = [] \<or>
          (case dict_get details ''status'' (PStr []) of
             PStr t \<Rightarrow> lower t = lower s
           | _ \<Rightarrow> False))"

definition date_matches :: "string option \<Rightarrow> details \<Rightarrow> bool" where
  "date_matches date details =
     (case date of
        None \<Rightarrow> True
      | Some d \<Rightarrow> d = [] \<or> dict_get details ''date'' (PStr []) = PStr d)"


section \<open>Facts about the text operations\<close>

subsection \<open>Substrings and the identifier pattern\<close>

lemma contains_sublist: "contains needle hay = sublist needle hay"
  by (induction hay) (simp_all add: sublist_Cons_right)

lemma contains_iff: "contains needle hay \<longleftrightarrow> (\<exists>p s. hay = p @ needle @ s)"
  by (simp add: contains_sublist sublist_def)


lemma matches_bk_iff:
  "matches_bk s \<longleftrightarrow> (\<exists>ds t. s = ''BK'' @ ds @ t \<and> length ds = 4 \<and> list_all is_digit ds)"
proof
  assume m: "matches_bk s"
  then obtain r where r: "s = ''BK'' @ r" by (auto simp: matches_bk_def prefix_def)
  with m have "4 \<le> length r" "list_all is_digit (take 4 r)" by (auto simp: matches_bk_def)
  then have "s = ''BK'' @ take 4 r @ drop 4 r \<and> length (take 4 r) = 4 \<and> list_all is_digit (take 4 r)"
    using r by simp
  then show "\<exists>ds t. s = ''BK'' @ ds @ t \<and> length ds = 4 \<and> list_all is_digit ds" by blast
next
  assume "\<exists>ds t. s = ''BK'' @ ds @ t \<and> length ds = 4 \<and> list_all is_digit ds"
  then show "matches_bk s" by (auto simp: matches_bk_def)
qed

lemma re_search_bk_Some:
  "re_search_bk s = Some b \<Longrightarrow>
     \<exists>p t. s = p @ b @ t \<and> length b = 6 \<and> matches_bk b \<and>
           (\<forall>p' s'. s = p' @ s' \<and> length p' < length p \<longrightarrow> \<not> matches_bk s')"
proof (induction s)
  case Nil
  then show ?case by simp
next
  case (Cons c cs)
  show ?case
  proof (cases "matches_bk (c # cs)")
    case True
    with Cons.prems have b: "b = take 6 (c # cs)" by simp
    from True have len: "6 \<le> length (c # cs)" by (simp add: matches_bk_def)
    have "c # cs = [] @ b @ drop 6 (c # cs)" using b by simp
    moreover have "length b = 6" using b len by simp
    moreover have "matches_bk b" using True b len
      by (auto simp: matches_bk_def prefix_def take_Suc_conv_app_nth min_def)
    ultimately show ?thesis by (metis length_greater_0_conv list.size(3) not_less_zero)
  next
    case False
    with Cons.prems have "re_search_bk cs = Some b" by simp
    from Cons.IH[OF this] obtain p t where
      pt: "cs = p @ b @ t" "length b = 6" "matches_bk b"
          "\<forall>p' s'. cs = p' @ s' \<and> length p' < length p \<longrightarrow> \<not> matches_bk s'"
      by blast
    have "\<forall>p' s'. c # cs = p' @ s' \<and> length p' < length (c # p) \<longrightarrow> \<not> matches_bk s'"
    proof (intro allI impI)
      fix p' s' assume a: "c # cs = p' @ s' \<and> length p' < length (c # p)"
      show "\<not> matches_bk s'"
      proof (cases p')
        case Nil
        with a False show ?thesis by simp
      next
        case (Cons x xs)
        with a have "cs = xs @ s'" "length xs < length p" by auto
        with pt(4) show ?thesis by blast
      qed
    qed
    moreover have "c # cs = (c # p) @ b @ t" using pt(1) by simp
    ultimately show ?thesis using pt(2,3) by blast
  qed
qed

lemma re_search_bk_None: "re_search_bk s = None \<Longrightarrow> s = p @ s' \<Longrightarrow> \<not> matches_bk s'"
proof (induction s arbitrary: p)
  case Nil
  then show ?case by (simp add: matches_bk_def)
next
  case (Cons c cs)
  then show ?case by (cases p) (auto split: if_splits)
qed

subsection \<open>Rendering and reading integers\<close>

lemma digit_char_props: "d < 10 \<Longrightarrow> is_digit (digit_char d) \<and> digit_val (digit_char d) = d"
proof -
  assume "d < 10"
  then have "d \<in> {0,1,2,3,4,5,6,7,8,9}" by auto
  then show ?thesis
    by (auto simp: digit_char_def is_digit_def digit_val_def)
qed

lemma digits_of_digits: "list_all is_digit (digits_of n)"
proof (induction n rule: digits_of.induct)
  case (1 n)
  show ?case
  proof (cases "n < 10")
    case True
    then show ?thesis by (subst digits_of.simps) (simp add: digit_char_props)
  next
    case False
    with 1 show ?thesis by (subst digits_of.simps) (simp add: digit_char_props)
  qed
qed

lemma digits_of_nonempty: "digits_of n \<noteq> []"
  by (subst digits_of.simps) simp

lemma parse_digits_all:
  "list_all is_digit ds \<Longrightarrow> parse_digits acc ds = Some (foldl (\<lambda>a c. a * 10 + digit_val c) acc ds)"
  by (induction ds arbitrary: acc) simp_all

lemma foldl_digits_of: "foldl (\<lambda>a c. a * 10 + digit_val c) 0 (digits_of n) = n"
proof (induction n rule: digits_of.induct)
  case (1 n)
  show ?case
  proof (cases "n < 10")
    case True
    then show ?thesis by (subst digits_of.simps) (simp add: digit_char_props)
  next
    case False
    with 1 show ?thesis by (subst digits_of.simps) (simp add: digit_char_props)
  qed
qed

lemma parse_unsigned_digits_of: "parse_unsigned (digits_of n) = Some n"
proof -
  obtain c cs where cs: "digits_of n = c # cs"
    using digits_of_nonempty by (cases "digits_of n") auto
  have all: "is_digit c" "list_all is_digit cs"
    using digits_of_digits[of n] cs by simp_all
  have "foldl (\<lambda>a c. a * 10 + digit_val c) 0 (c # cs) = n"
    using foldl_digits_of[of n] cs by simp
  then show ?thesis
    using all by (simp add: parse_unsigned_def cs parse_digits_all)
qed

lemma digit_not_space: "is_digit c \<Longrightarrow> \<not> is_space c"
  by (auto simp: is_digit_def is_space_def Let_def)

lemma digit_not_sign: "is_digit c \<Longrightarrow> c \<noteq> CHR ''+'' \<and> c \<noteq> CHR ''-''"
  by (auto simp: is_digit_def)

lemma strip_id:
  "s \<noteq> [] \<Longrightarrow> \<not> is_space (hd s) \<Longrightarrow> \<not> is_space (last s) \<Longrightarrow> strip s = s"
proof -
  assume a: "s \<noteq> []" "\<not> is_space (hd s)" "\<not> is_space (last s)"
  then have 1: "dropWhile is_space s = s" by (cases s) auto
  from a have "rev s \<noteq> []" "\<not> is_space (hd (rev s))" by (simp_all add: hd_rev)
  then have 2: "dropWhile is_space (rev s) = rev s" by (cases "rev s") auto
  show ?thesis by (simp add: strip_def 1 2)
qed


lemma str_int_nonempty: "str_int i \<noteq> []"
  by (simp add: str_int_def digits_of_nonempty)

lemma str_int_last: "is_digit (last (str_int i))"
proof -
  have "\<And>n. is_digit (last (digits_of n))"
    using digits_of_digits digits_of_nonempty by (metis last_in_set list_all_iff)
  then show ?thesis by (simp add: str_int_def digits_of_nonempty)
qed

lemma str_int_hd: "\<not> is_space (hd (str_int i))"
proof -
  have "\<And>n. is_digit (hd (digits_of n))"
    using digits_of_digits digits_of_nonempty by (metis hd_in_set list_all_iff)
  then have "\<And>n. \<not> is_space (hd (digits_of n))" by (simp add: digit_not_space)
  moreover have "\<not> is_space CHR ''-''" by (simp add: is_space_def)
  ultimately show ?thesis by (simp add: str_int_def)
qed

lemma strip_str_int: "strip (str_int i) = str_int i"
  by (rule strip_id) (simp_all add: str_int_nonempty str_int_hd str_int_last digit_not_space)

lemma parse_int_str_int: "parse_int (str_int i) = Some i"
proof (cases "i < 0")
  case True
  then show ?thesis
    by (simp add: str_int_def parse_int_def parse_unsigned_digits_of)
next
  case False
  obtain c cs where cs: "digits_of (nat i) = c # cs"
    using digits_of_nonempty by (cases "digits_of (nat i)") auto
  then have "is_digit c" using digits_of_digits[of "nat i"] by simp
  then have "c \<noteq> CHR ''+''" "c \<noteq> CHR ''-''" using digit_not_sign by auto
  moreover have "parse_unsigned (c # cs) = Some (nat i)"
    using parse_unsigned_digits_of[of "nat i"] cs by simp
  ultimately show ?thesis using False
    by (simp add: str_int_def parse_int_def cs)
qed

lemma py_int_str_int: "py_int (str_int i) = Inr i"
  by (simp add: py_int_def strip_str_int parse_int_str_int)

subsection \<open>Where the search finds the identifier\<close>

lemma re_search_bk_at:
  "matches_bk (b @ t) \<Longrightarrow> length b = 6 \<Longrightarrow>
   (\<forall>p' s'. p @ b @ t = p' @ s' \<and> length p' < length p \<longrightarrow> \<not> matches_bk s') \<Longrightarrow>
   re_search_bk (p @ b @ t) = Some b"
proof (induction p)
  case Nil
  then show ?case by (cases b) auto
next
  case (Cons c p)
  have "(c # p) @ b @ t = [] @ ((c # p) @ b @ t) \<and> length ([]::string) < length (c # p)"
    by simp
  with Cons.prems(3) have "\<not> matches_bk ((c # p) @ b @ t)" by blast
  moreover have "\<forall>p' s'. p @ b @ t = p' @ s' \<and> length p' < length p \<longrightarrow> \<not> matches_bk s'"
  proof (intro allI impI)
    fix p' s' assume "p @ b @ t = p' @ s' \<and> length p' < length p"
    then have "(c # p) @ b @ t = (c # p') @ s' \<and> length (c # p') < length (c # p)" by simp
    with Cons.prems(3) show "\<not> matches_bk s'" by blast
  qed
  ultimately show ?case using Cons.IH[OF Cons.prems(1,2)] by simp
qed

lemma matches_bk_append: "matches_bk b \<Longrightarrow> matches_bk (b @ t)"
  by (auto simp: matches_bk_def prefix_def)

section \<open>Looking a booking up\<close>

lemma get_booking_present:
  "distinct (map fst (bookings bm (mgr_state st))) \<Longrightarrow>
   (booking_id, details) \<in> set (bookings bm (mgr_state st)) \<Longrightarrow>
   get_booking bm booking_id st =
     Inr (\<lparr>br_booking_id = Some booking_id, br_success = True,
           br_message = ''Booking details retrieved successfully'',
           br_booking_data = Some details, br_error = None\<rparr>, st)"
  by (simp add: get_booking_def)

lemma get_booking_absent:
  "booking_id \<notin> fst ` set (bookings bm (mgr_state st)) \<Longrightarrow>
   get_booking bm booking_id st =
     Inr (\<lparr>br_booking_id = None, br_success = False,
           br_message = ''Booking '' @ booking_id @ '' not found'',
           br_booking_data = None, br_error = Some ''Booking not found''\<rparr>, st)"
proof -
  assume "booking_id \<notin> fst ` set (bookings bm (mgr_state st))"
  then have "map_of (bookings bm (mgr_state st)) booking_id = None"
    by (simp add: map_of_eq_None_iff)
  then show ?thesis by (simp add: get_booking_def)
qed

text \<open>
  C8. \<^verbatim>\<open>get_booking\<close> answers with the stored record when the ledger has the identifier, and
  with a not-found result (success false, error \<^verbatim>\<open>Booking not found\<close>) when it has not. In
  both cases the handler returns a response, no exception leaves it, and the state, with the
  ledger in it, is the one it started from.
\<close>

theorem get_booking_found_or_not_found:
  assumes "distinct (map fst (bookings bm (mgr_state st)))"
  shows "((booking_id, details) \<in> set (bookings bm (mgr_state st)) \<longrightarrow>
            get_booking bm booking_id st =
              Inr (\<lparr>br_booking_id = Some booking_id, br_success = True,
                    br_message = ''Booking details retrieved successfully'',
                    br_booking_data = Some details, br_error = None\<rparr>, st)) \<and>
         (booking_id \<notin> fst ` set (bookings bm (mgr_state st)) \<longrightarrow>
            get_booking bm booking_id st =
              Inr (\<lparr>br_booking_id = None, br_success = False,
                    br_message = ''Booking '' @ booking_id @ '' not found'',
                    br_booking_data = None, br_error = Some ''Booking not found''\<rparr>, st))"
  using assms get_booking_present get_booking_absent by blast

theorem get_booking_found_or_not_found_witness:
  "distinct (map fst (bookings (fixed_manager (Inr [])) (mgr_state (start [(''BK0001'', alice), (''BK0002'', bob)])))) \<and>
   (''BK0002'', bob) \<in> set (bookings (fixed_manager (Inr [])) (mgr_state (start [(''BK0001'', alice), (''BK0002'', bob)]))) \<and>
   get_booking (fixed_manager (Inr [])) ''BK0002'' (start [(''BK0001'', alice), (''BK0002'', bob)]) =
     Inr (\<lparr>br_booking_id = Some ''BK0002'', br_success = True,
           br_message = ''Booking details retrieved successfully'',
           br_booking_data = Some bob, br_error = None\<rparr>, start [(''BK0001'', alice), (''BK0002'', bob)]) \<and>
   ''BK0003'' \<notin> fst ` set (bookings (fixed_manager (Inr [])) (mgr_state (start [(''BK0001'', alice), (''BK0002'', bob)]))) \<and>
   get_booking (fixed_manager (Inr [])) ''BK0003'' (start [(''BK0001'', alice), (''BK0002'', bob)]) =
     Inr (\<lparr>br_booking_id = None, br_success = False,
           br_message = ''Booking BK0003 not found'',
           br_booking_data = None, br_error = Some ''Booking not found''\<rparr>, start [(''BK0001'', alice), (''BK0002'', bob)])"
proof -
  let ?bm = "fixed_manager (Inr [])"
  let ?st = "start [(''BK0001'', alice), (''BK0002'', bob)]"
  have d: "distinct (map fst (bookings ?bm (mgr_state ?st)))"
    by (simp add: fixed_manager_def start_def)
  have m: "(''BK0002'', bob) \<in> set (bookings ?bm (mgr_state ?st))"
    by (simp add: fixed_manager_def start_def)
  have n: "''BK0003'' \<notin> fst ` set (bookings ?bm (mgr_state ?st))"
    by (simp add: fixed_manager_def start_def)
  show ?thesis
    using d m n
      get_booking_found_or_not_found [OF d, of "''BK0002''" bob]
      get_booking_found_or_not_found [OF d, of "''BK0003''" bob]
    by simp
qed

section \<open>Creating a booking: what the response is made of\<close>

lemma truthy_Some_match: "truthy (Some b) \<longleftrightarrow> b \<noteq> []"
  by (simp add: truthy_def)

lemma re_search_bk_nonempty: "re_search_bk s = Some b \<Longrightarrow> b \<noteq> []"
  using re_search_bk_Some by fastforce

lemma create_response_id:
  "br_booking_id (create_response result ledger) =
     (if contains ''Booking created successfully'' result then re_search_bk result else None)"
  by (simp add: create_response_def Let_def)

lemma create_response_data:
  "br_booking_data (create_response result ledger) =
     (case br_booking_id (create_response result ledger) of
        None \<Rightarrow> None | Some b \<Rightarrow> map_of ledger b)"
  by (auto simp: create_response_def Let_def truthy_def split: option.splits
           dest: re_search_bk_nonempty)

lemma create_booking_returned:
  "bm_create_booking bm (booking_data request) (mgr_state st) = (Inr result, m) \<Longrightarrow>
   create_booking bm request st =
     Inr (create_response result (bookings bm m), st\<lparr>mgr_state := m\<rparr>)"
  by (simp add: create_booking_def)

text \<open>
  C10. When the manager answers a creation with a text, the response of \<^verbatim>\<open>create_booking\<close>
  carries that text as its message; its success flag is true exactly when the text contains
  \<^verbatim>\<open>Booking created successfully\<close>; its \<^verbatim>\<open>booking_id\<close> is set only when the flag is true
  and the text also has \<^verbatim>\<open>BK\<close> followed by four digits somewhere, and is then such a run of
  six characters. So a text with the phrase and no identifier, the bare phrase for one,
  yields success together with a null \<^verbatim>\<open>booking_id\<close> and null \<^verbatim>\<open>booking_data\<close>.
\<close>

theorem create_booking_flag_and_id:
  assumes "bm_create_booking bm (booking_data request) (mgr_state st) = (Inr result, m)"
  shows "\<exists>r. create_booking bm request st = Inr (r, st\<lparr>mgr_state := m\<rparr>) \<and>
           br_message r = result \<and>
           (br_success r \<longleftrightarrow> (\<exists>p s. result = p @ ''Booking created successfully'' @ s)) \<and>
           (\<forall>b. br_booking_id r = Some b \<longrightarrow>
                  br_success r \<and>
                  (\<exists>p ds s. result = p @ ''BK'' @ ds @ s \<and> length ds = 4 \<and>
                             list_all is_digit ds \<and> b = ''BK'' @ ds)) \<and>
           (result = ''Booking created successfully'' \<longrightarrow>
              br_success r \<and> br_booking_id r = None \<and> br_booking_data r = None)"
proof -
  let ?r = "create_response result (bookings bm m)"
  have run: "create_booking bm request st = Inr (?r, st\<lparr>mgr_state := m\<rparr>)"
    using assms by (rule create_booking_returned)
  have msg: "br_message ?r = result" by (simp add: create_response_def Let_def)
  have flag: "br_success ?r \<longleftrightarrow> (\<exists>p s. result = p @ ''Booking created successfully'' @ s)"
    by (simp add: create_response_def Let_def contains_iff)
  have ident: "\<forall>b. br_booking_id ?r = Some b \<longrightarrow>
                  br_success ?r \<and>
                  (\<exists>p ds s. result = p @ ''BK'' @ ds @ s \<and> length ds = 4 \<and>
                             list_all is_digit ds \<and> b = ''BK'' @ ds)"
  proof (intro allI impI)
    fix b assume b: "br_booking_id ?r = Some b"
    then have c: "contains ''Booking created successfully'' result"
      and s: "re_search_bk result = Some b"
      by (simp_all add: create_response_id split: if_splits)
    from re_search_bk_Some[OF s] obtain p t where
      pt: "result = p @ b @ t" "length b = 6" "matches_bk b" by blast
    from pt(3) obtain ds u where ds: "b = ''BK'' @ ds @ u" "length ds = 4" "list_all is_digit ds"
      using matches_bk_iff by blast
    with pt(2) have "u = []" by simp
    with ds pt(1) have "result = p @ ''BK'' @ ds @ t \<and> length ds = 4 \<and>
        list_all is_digit ds \<and> b = ''BK'' @ ds" by simp
    moreover have "br_success ?r" using c by (simp add: create_response_def Let_def)
    ultimately show "br_success ?r \<and>
        (\<exists>p ds s. result = p @ ''BK'' @ ds @ s \<and> length ds = 4 \<and>
                   list_all is_digit ds \<and> b = ''BK'' @ ds)" by blast
  qed
  have bare: "result = ''Booking created successfully'' \<longrightarrow>
      br_success ?r \<and> br_booking_id ?r = None \<and> br_booking_data ?r = None"
    by (simp add: create_response_def Let_def matches_bk_def truthy_def)
  show ?thesis using run msg flag ident bare by blast
qed

theorem create_booking_flag_and_id_witness:
  "bm_create_booking (fixed_manager (Inr ''Booking created successfully''))
       (booking_data \<lparr>rq_name = ''Alice'', rq_contact = ''a@x.com'', rq_date = ''2024-06-01'',
                      rq_time = ''19:00'', rq_guests = 2, rq_special_requirements = None\<rparr>)
       (mgr_state (start [(''BK0001'', alice)]))
     = (Inr ''Booking created successfully'', [(''BK0001'', alice)]) \<and>
   (\<exists>r. create_booking (fixed_manager (Inr ''Booking created successfully''))
           \<lparr>rq_name = ''Alice'', rq_contact = ''a@x.com'', rq_date = ''2024-06-01'',
            rq_time = ''19:00'', rq_guests = 2, rq_special_requirements = None\<rparr>
           (start [(''BK0001'', alice)])
         = Inr (r, start [(''BK0001'', alice)]) \<and>
         br_success r \<and> br_booking_id r = None \<and> br_booking_data r = None)"
proof -
  let ?bm = "fixed_manager (Inr ''Booking created successfully'')"
  let ?rq = "\<lparr>rq_name = ''Alice'', rq_contact = ''a@x.com'', rq_date = ''2024-06-01'',
              rq_time = ''19:00'', rq_guests = 2, rq_special_requirements = None\<rparr>"
  let ?st = "start [(''BK0001'', alice)]"
  have h: "bm_create_booking ?bm (booking_data ?rq) (mgr_state ?st)
             = (Inr ''Booking created successfully'', [(''BK0001'', alice)])"
    by (simp add: fixed_manager_def start_def)
  have same: "?st\<lparr>mgr_state := [(''BK0001'', alice)]\<rparr> = ?st"
    by (simp add: start_def)
  from create_booking_flag_and_id [OF h] same h show ?thesis
    by auto
qed

text \<open>
  C2, as the code has it. The identifier in the response of a creation is read back from the
  manager's message: it is set exactly when the message contains
  \<^verbatim>\<open>Booking created successfully\<close> and has a run \<^verbatim>\<open>BK\<close> plus four digits, and it is then the
  leftmost such run; \<^verbatim>\<open>booking_data\<close> is whatever the ledger holds under that run after the
  call (nothing when no identifier was found).
\<close>

theorem create_booking_id_read_from_message:
  assumes "bm_create_booking bm (booking_data request) (mgr_state st) = (Inr result, m)"
  shows "\<exists>r. create_booking bm request st = Inr (r, st\<lparr>mgr_state := m\<rparr>) \<and>
           (\<forall>b. br_booking_id r = Some b \<longleftrightarrow>
                  contains ''Booking created successfully'' result \<and>
                  (\<exists>p t. result = p @ b @ t \<and> length b = 6 \<and> matches_bk b \<and>
                         (\<forall>p' s'. result = p' @ s' \<and> length p' < length p
                              \<longrightarrow> \<not> matches_bk s'))) \<and>
           br_booking_data r =
             (case br_booking_id r of None \<Rightarrow> None | Some b \<Rightarrow> map_of (bookings bm m) b)"
proof -
  let ?r = "create_response result (bookings bm m)"
  have run: "create_booking bm request st = Inr (?r, st\<lparr>mgr_state := m\<rparr>)"
    using assms by (rule create_booking_returned)
  have ident: "\<forall>b. br_booking_id ?r = Some b \<longleftrightarrow>
                  contains ''Booking created successfully'' result \<and>
                  (\<exists>p t. result = p @ b @ t \<and> length b = 6 \<and> matches_bk b \<and>
                         (\<forall>p' s'. result = p' @ s' \<and> length p' < length p
                              \<longrightarrow> \<not> matches_bk s'))"
  proof (intro allI iffI)
    fix b assume "br_booking_id ?r = Some b"
    then have c: "contains ''Booking created successfully'' result"
      and s: "re_search_bk result = Some b"
      by (simp_all add: create_response_id split: if_splits)
    from re_search_bk_Some[OF s] c
    show "contains ''Booking created successfully'' result \<and>
          (\<exists>p t. result = p @ b @ t \<and> length b = 6 \<and> matches_bk b \<and>
                 (\<forall>p' s'. result = p' @ s' \<and> length p' < length p \<longrightarrow> \<not> matches_bk s'))"
      by blast
  next
    fix b
    assume a: "contains ''Booking created successfully'' result \<and>
          (\<exists>p t. result = p @ b @ t \<and> length b = 6 \<and> matches_bk b \<and>
                 (\<forall>p' s'. result = p' @ s' \<and> length p' < length p \<longrightarrow> \<not> matches_bk s'))"
    then obtain p t where pt: "result = p @ b @ t" "length b = 6" "matches_bk b"
      "\<forall>p' s'. result = p' @ s' \<and> length p' < length p \<longrightarrow> \<not> matches_bk s'"
      by blast
    have "re_search_bk (p @ b @ t) = Some b"
      using matches_bk_append[OF pt(3)] pt(2) pt(4)[unfolded pt(1)] by (rule re_search_bk_at)
    with a pt(1) show "br_booking_id ?r = Some b"
      by (simp add: create_response_id)
  qed
  show ?thesis using run ident create_response_data[of result "bookings bm m"] by blast
qed

theorem create_booking_id_read_from_message_witness:
  "bm_create_booking (fixed_manager (Inr ''Booking created successfully! Your booking ID is BK0002''))
       (booking_data alice_request) (mgr_state (start [(''BK0001'', alice), (''BK0002'', bob)]))
     = (Inr ''Booking created successfully! Your booking ID is BK0002'',
        [(''BK0001'', alice), (''BK0002'', bob)]) \<and>
   (\<exists>r. create_booking (fixed_manager (Inr ''Booking created successfully! Your booking ID is BK0002''))
           alice_request (start [(''BK0001'', alice), (''BK0002'', bob)])
         = Inr (r, start [(''BK0001'', alice), (''BK0002'', bob)]) \<and>
         br_booking_id r = Some ''BK0002'' \<and> br_booking_data r = Some bob \<and>
         (\<exists>p t. ''Booking created successfully! Your booking ID is BK0002'' = p @ ''BK0002'' @ t \<and>
                (\<forall>p' s'. ''Booking created successfully! Your booking ID is BK0002'' = p' @ s' \<and>
                          length p' < length p \<longrightarrow> \<not> matches_bk s')))"
proof -
  let ?msg = "''Booking created successfully! Your booking ID is BK0002''"
  let ?bm = "fixed_manager (Inr ?msg)"
  let ?l = "[(''BK0001'', alice), (''BK0002'', bob)]"
  have h: "bm_create_booking ?bm (booking_data alice_request) (mgr_state (start ?l)) = (Inr ?msg, ?l)"
    by (simp add: fixed_manager_def start_def)
  have same: "(start ?l)\<lparr>mgr_state := ?l\<rparr> = start ?l"
    by (simp add: start_def)
  from create_booking_id_read_from_message [OF h] obtain r where
    run: "create_booking ?bm alice_request (start ?l) = Inr (r, (start ?l)\<lparr>mgr_state := ?l\<rparr>)"
    and ident: "\<forall>b. br_booking_id r = Some b \<longleftrightarrow>
                  contains ''Booking created successfully'' ?msg \<and>
                  (\<exists>p t. ?msg = p @ b @ t \<and> length b = 6 \<and> matches_bk b \<and>
                         (\<forall>p' s'. ?msg = p' @ s' \<and> length p' < length p \<longrightarrow> \<not> matches_bk s'))"
    and data: "br_booking_data r =
                 (case br_booking_id r of None \<Rightarrow> None | Some b \<Rightarrow> map_of (bookings ?bm ?l) b)"
    by blast
  have "create_booking ?bm alice_request (start ?l) =
          Inr (create_response ?msg ?l, start ?l)"
    by (simp add: create_booking_def fixed_manager_def start_def)
  with run same have r: "r = create_response ?msg ?l" by simp
  have rid: "br_booking_id r = Some ''BK0002''"
    unfolding r by (simp add: create_response_def Let_def matches_bk_def is_digit_def)
  have rdata: "br_booking_data r = Some bob"
    using data rid by (simp add: fixed_manager_def)
  from ident rid have "\<exists>p t. ?msg = p @ ''BK0002'' @ t \<and>
      (\<forall>p' s'. ?msg = p' @ s' \<and> length p' < length p \<longrightarrow> \<not> matches_bk s')"
    by blast
  with h run same rid rdata show ?thesis by auto
qed

text \<open>
  C2 as stated fails: with the same request and the same ledger, the identifier the caller
  gets follows the wording of the message (\<^verbatim>\<open>BK0001\<close> or \<^verbatim>\<open>BK0002\<close>, with the record stored
  under it), and a message that reports success without the pattern delivers no identifier
  at all.
\<close>

theorem create_booking_id_counterexample:
  "create_booking (fixed_manager (Inr ''Booking created successfully! Your booking ID is BK0001''))
       alice_request (start [(''BK0001'', alice), (''BK0002'', bob)])
     = Inr (\<lparr>br_booking_id = Some ''BK0001'', br_success = True,
             br_message = ''Booking created successfully! Your booking ID is BK0001'',
             br_booking_data = Some alice, br_error = None\<rparr>,
            start [(''BK0001'', alice), (''BK0002'', bob)]) \<and>
   create_booking (fixed_manager (Inr ''Booking created successfully! Your booking ID is BK0002''))
       alice_request (start [(''BK0001'', alice), (''BK0002'', bob)])
     = Inr (\<lparr>br_booking_id = Some ''BK0002'', br_success = True,
             br_message = ''Booking created successfully! Your booking ID is BK0002'',
             br_booking_data = Some bob, br_error = None\<rparr>,
            start [(''BK0001'', alice), (''BK0002'', bob)]) \<and>
   create_booking (fixed_manager (Inr ''Booking created successfully for Alice''))
       alice_request (start [(''BK0001'', alice), (''BK0002'', bob)])
     = Inr (\<lparr>br_booking_id = None, br_success = True,
             br_message = ''Booking created successfully for Alice'',
             br_booking_data = None, br_error = None\<rparr>,
            start [(''BK0001'', alice), (''BK0002'', bob)])"
  by (simp add: create_booking_def create_response_def Let_def fixed_manager_def start_def
        matches_bk_def is_digit_def truthy_def)

section \<open>Creating a booking: what the manager is handed\<close>

lemma booking_data_guests:
  "map_of (booking_data request) ''guests'' = Some (PStr (str_int (rq_guests request)))"
  by (simp add: booking_data_def)

lemma booking_data_special:
  "map_of (booking_data request) ''special_requirements'' =
     Some (PStr (case rq_special_requirements request of None \<Rightarrow> [] | Some s \<Rightarrow> s))"
  by (simp add: booking_data_def truthy_def split: option.splits)

lemma create_booking_calls_with_booking_data:
  "f (booking_data request) (mgr_state st)
     = bm_create_booking bm (booking_data request) (mgr_state st) \<Longrightarrow>
   create_booking (bm\<lparr>bm_create_booking := f\<rparr>) request st = create_booking bm request st"
  by (simp add: create_booking_def split: prod.splits sum.splits)

lemma create_booking_raised:
  "bm_create_booking bm (booking_data request) (mgr_state st) = (Inl e, m) \<Longrightarrow>
   create_booking bm request st =
     Inr (\<lparr>br_booking_id = None, br_success = False,
           br_message = ''Error creating booking: '' @ str_exc e,
           br_booking_data = None, br_error = Some (str_exc e)\<rparr>,
          track_error e
            [(''operation'', PStr ''create_booking''),
             (''booking_data'', PDict (request_dict request))]
            (st\<lparr>mgr_state := m\<rparr>))"
  by (simp add: create_booking_def)

text \<open>
  C9. In the dict \<^verbatim>\<open>create_booking\<close> builds from the request, \<^verbatim>\<open>guests\<close> is the text \<^verbatim>\<open>str(n)\<close>
  of the request's integer \<open>n\<close>, a text and not the integer (reading it back with \<^verbatim>\<open>int\<close> gives
  \<open>n\<close> again), and \<^verbatim>\<open>special_requirements\<close> is the empty text when the request has none. That
  dict is what the manager's creation routine is called with: whatever the routine answers at
  that dict, a text or an exception, is what the handler's response is built from, and the
  state the routine leaves is the state the handler leaves; the routine's answers at other
  arguments do not matter.
\<close>

theorem create_booking_hands_over_text_fields:
  "map_of (booking_data request) ''guests'' = Some (PStr (str_int (rq_guests request))) \<and>
   py_int (str_int (rq_guests request)) = Inr (rq_guests request) \<and>
   (rq_special_requirements request = None \<longrightarrow>
      map_of (booking_data request) ''special_requirements'' = Some (PStr [])) \<and>
   (\<forall>result m.
      bm_create_booking bm (booking_data request) (mgr_state st) = (Inr result, m) \<longrightarrow>
      create_booking bm request st =
        Inr (create_response result (bookings bm m), st\<lparr>mgr_state := m\<rparr>)) \<and>
   (\<forall>e m.
      bm_create_booking bm (booking_data request) (mgr_state st) = (Inl e, m) \<longrightarrow>
      create_booking bm request st =
        Inr (\<lparr>br_booking_id = None, br_success = False,
              br_message = ''Error creating booking: '' @ str_exc e,
              br_booking_data = None, br_error = Some (str_exc e)\<rparr>,
             track_error e
               [(''operation'', PStr ''create_booking''),
                (''booking_data'', PDict (request_dict request))]
               (st\<lparr>mgr_state := m\<rparr>))) \<and>
   (\<forall>f. f (booking_data request) (mgr_state st)
            = bm_create_booking bm (booking_data request) (mgr_state st) \<longrightarrow>
        create_booking (bm\<lparr>bm_create_booking := f\<rparr>) request st = create_booking bm request st)"
proof (intro conjI allI impI)
  show "map_of (booking_data request) ''guests'' = Some (PStr (str_int (rq_guests request)))"
    by (rule booking_data_guests)
  show "py_int (str_int (rq_guests request)) = Inr (rq_guests request)"
    by (rule py_int_str_int)
  show "map_of (booking_data request) ''special_requirements'' = Some (PStr [])"
    if "rq_special_requirements request = None"
    using that by (simp add: booking_data_special)
  show "create_booking bm request st =
        Inr (create_response result (bookings bm m), st\<lparr>mgr_state := m\<rparr>)"
    if "bm_create_booking bm (booking_data request) (mgr_state st) = (Inr result, m)"
    for result m
    using that by (rule create_booking_returned)
  show "create_booking bm request st =
        Inr (\<lparr>br_booking_id = None, br_success = False,
              br_message = ''Error creating booking: '' @ str_exc e,
              br_booking_data = None, br_error = Some (str_exc e)\<rparr>,
             track_error e
               [(''operation'', PStr ''create_booking''),
                (''booking_data'', PDict (request_dict request))]
               (st\<lparr>mgr_state := m\<rparr>))"
    if "bm_create_booking bm (booking_data request) (mgr_state st) = (Inl e, m)"
    for e m
    using that by (rule create_booking_raised)
  show "create_booking (bm\<lparr>bm_create_booking := f\<rparr>) request st = create_booking bm request st"
    if "f (booking_data request) (mgr_state st)
          = bm_create_booking bm (booking_data request) (mgr_state st)"
    for f
    using that by (rule create_booking_calls_with_booking_data)
qed

theorem create_booking_hands_over_text_fields_witness:
  "rq_special_requirements alice_request = None \<and>
   rq_guests alice_request = 2 \<and>
   bm_create_booking (storing_manager ''BK0002'') (booking_data alice_request)
       (mgr_state (start [(''BK0001'', alice)]))
     = (Inr ''Booking created successfully! Your booking ID is BK0002'',
        [(''BK0001'', alice),
         (''BK0002'',
          [(''name'', PStr ''Alice''), (''contact'', PStr ''a@x.com''),
           (''date'', PStr ''2024-06-01''), (''time'', PStr ''19:00''),
           (''guests'', PStr ''2''), (''special_requirements'', PStr []),
           (''status'', PStr ''confirmed'')])]) \<and>
   create_booking (storing_manager ''BK0002'') alice_request (start [(''BK0001'', alice)])
     = Inr (\<lparr>br_booking_id = Some ''BK0002'', br_success = True,
             br_message = ''Booking created successfully! Your booking ID is BK0002'',
             br_booking_data =
               Some [(''name'', PStr ''Alice''), (''contact'', PStr ''a@x.com''),
                     (''date'', PStr ''2024-06-01''), (''time'', PStr ''19:00''),
                     (''guests'', PStr ''2''), (''special_requirements'', PStr []),
                     (''status'', PStr ''confirmed'')],
             br_error = None\<rparr>,
            start [(''BK0001'', alice),
                   (''BK0002'',
                    [(''name'', PStr ''Alice''), (''contact'', PStr ''a@x.com''),
                     (''date'', PStr ''2024-06-01''), (''time'', PStr ''19:00''),
                     (''guests'', PStr ''2''), (''special_requirements'', PStr []),
                     (''status'', PStr ''confirmed'')])])"
proof -
  let ?bm = "storing_manager ''BK0002''"
  let ?st = "start [(''BK0001'', alice)]"
  let ?msg = "''Booking created successfully! Your booking ID is BK0002''"
  let ?stored = "[(''name'', PStr ''Alice''), (''contact'', PStr ''a@x.com''),
                  (''date'', PStr ''2024-06-01''), (''time'', PStr ''19:00''),
                  (''guests'', PStr ''2''), (''special_requirements'', PStr []),
                  (''status'', PStr ''confirmed'')]"
  let ?l = "[(''BK0001'', alice), (''BK0002'', ?stored)]"
  have n: "rq_special_requirements alice_request = None" "rq_guests alice_request = 2"
    by (simp_all add: alice_request_def)
  have d: "booking_data alice_request =
     [(''name'', PStr ''Alice''), (''contact'', PStr ''a@x.com''),
      (''date'', PStr ''2024-06-01''), (''time'', PStr ''19:00''),
      (''guests'', PStr ''2''), (''special_requirements'', PStr [])]"
    by (simp add: booking_data_def alice_request_def truthy_def str_int_def digits_of.simps
          digit_char_def)
  have h: "bm_create_booking ?bm (booking_data alice_request) (mgr_state ?st) = (Inr ?msg, ?l)"
    unfolding d by (simp add: storing_manager_def fixed_manager_def start_def)
  have "create_booking ?bm alice_request ?st =
          Inr (create_response ?msg (bookings ?bm ?l), ?st\<lparr>mgr_state := ?l\<rparr>)"
    by (rule create_booking_hands_over_text_fields
          [of alice_request ?bm ?st, THEN conjunct2, THEN conjunct2, THEN conjunct2,
           THEN conjunct1, rule_format, OF h])
  moreover have "create_response ?msg (bookings ?bm ?l) =
      \<lparr>br_booking_id = Some ''BK0002'', br_success = True, br_message = ?msg,
       br_booking_data = Some ?stored, br_error = None\<rparr>"
    by (simp add: create_response_def Let_def matches_bk_def is_digit_def truthy_def
          storing_manager_def fixed_manager_def)
  moreover have "?st\<lparr>mgr_state := ?l\<rparr> = start ?l" by (simp add: start_def)
  ultimately have run: "create_booking ?bm alice_request ?st =
      Inr (\<lparr>br_booking_id = Some ''BK0002'', br_success = True, br_message = ?msg,
             br_booking_data = Some ?stored, br_error = None\<rparr>, start ?l)"
    by simp
  show ?thesis
    by (intro conjI) (rule n(1), rule n(2), rule h, rule run)
qed

section \<open>Cancelling a booking\<close>






section \<open>The chat handler\<close>













section \<open>Listing bookings\<close>

lemma status_skips_text:
  "dict_get details ''status'' (PStr []) = PStr t \<Longrightarrow>
   status_skips status details = Inr (\<not> status_matches status details)"
  by (auto simp: status_skips_def status_matches_def truthy_def and_then_def split: option.splits)

lemma status_skips_no_filter:
  "\<not> truthy status \<Longrightarrow> status_skips status details = Inr (\<not> status_matches status details)"
  by (auto simp: status_skips_def status_matches_def truthy_def split: option.splits)

lemma date_skips_matches: "date_skips date details = (\<not> date_matches date details)"
  by (auto simp: date_skips_def date_matches_def truthy_def split: option.splits)

lemma list_loop_filter:
  assumes "\<forall>(booking_id, details) \<in> set ledger.
             truthy status \<longrightarrow> (\<exists>t. dict_get details ''status'' (PStr []) = PStr t)"
  shows "list_loop status date ledger acc =
           Inr (acc @ map (\<lambda>(booking_id, details). booking_details booking_id details)
                        (filter (\<lambda>(booking_id, details).
                                   status_matches status details \<and> date_matches date details)
                                ledger))"
  using assms
proof (induction ledger arbitrary: acc)
  case Nil
  then show ?case by simp
next
  case (Cons entry rest)
  obtain booking_id details where entry: "entry = (booking_id, details)" by (cases entry)
  have skip: "status_skips status details = Inr (\<not> status_matches status details)"
  proof (cases "truthy status")
    case True
    with Cons.prems entry obtain t where "dict_get details ''status'' (PStr []) = PStr t"
      by auto
    then show ?thesis by (rule status_skips_text)
  next
    case False
    then show ?thesis by (rule status_skips_no_filter)
  qed
  have rest: "\<forall>(booking_id, details) \<in> set rest.
             truthy status \<longrightarrow> (\<exists>t. dict_get details ''status'' (PStr []) = PStr t)"
    using Cons.prems by simp
  show ?case
    by (simp add: entry skip and_then_def date_skips_matches Cons.IH[OF rest])
qed

text \<open>
  C7, as the code has it. On a ledger whose status fields are texts, \<^verbatim>\<open>list_bookings\<close>
  returns, in the ledger's insertion order, exactly the records that pass both filters, and
  their number as \<^verbatim>\<open>total_count\<close>. A status filter passes the records whose status equals it
  letter case aside, a date filter those whose date is equal to it; a filter that is left
  out, or given as the empty text, lets every record pass.
\<close>

theorem list_bookings_filters:
  assumes "truthy status \<longrightarrow>
             (\<forall>(booking_id, details) \<in> set (bookings bm (mgr_state st)).
                \<exists>t. dict_get details ''status'' (PStr []) = PStr t)"
  shows "list_bookings bm status date st =
           Inr (\<lparr>bl_bookings =
                   map (\<lambda>(booking_id, details). booking_details booking_id details)
                     (filter (\<lambda>(booking_id, details).
                                status_matches status details \<and> date_matches date details)
                             (bookings bm (mgr_state st))),
                 bl_total_count =
                   length (filter (\<lambda>(booking_id, details).
                                     status_matches status details \<and> date_matches date details)
                                  (bookings bm (mgr_state st))),
                 bl_success = None, bl_error = None\<rparr>, st)"
proof -
  have "\<forall>(booking_id, details) \<in> set (bookings bm (mgr_state st)).
          truthy status \<longrightarrow> (\<exists>t. dict_get details ''status'' (PStr []) = PStr t)"
    using assms by auto
  then have "list_loop status date (bookings bm (mgr_state st)) [] =
           Inr ([] @ map (\<lambda>(booking_id, details). booking_details booking_id details)
                        (filter (\<lambda>(booking_id, details).
                                   status_matches status details \<and> date_matches date details)
                                (bookings bm (mgr_state st))))"
    by (rule list_loop_filter)
  then show ?thesis by (simp add: list_bookings_def)
qed

theorem list_bookings_filters_witness:
  "truthy (Some ''CONFIRMED'') \<and>
   dict_get alice ''status'' (PStr []) = PStr ''confirmed'' \<and>
   dict_get bob ''status'' (PStr []) = PStr ''cancelled'' \<and>
   list_bookings (fixed_manager (Inr [])) (Some ''CONFIRMED'') (Some ''2024-06-01'')
       (start [(''BK0001'', alice), (''BK0002'', bob)])
     = Inr (\<lparr>bl_bookings = [booking_details ''BK0001'' alice], bl_total_count = 1,
             bl_success = None, bl_error = None\<rparr>,
            start [(''BK0001'', alice), (''BK0002'', bob)]) \<and>
   list_bookings (fixed_manager (Inr [])) None None
       (start [(''BK0001'', alice), (''BK0002'', bob)])
     = Inr (\<lparr>bl_bookings = [booking_details ''BK0001'' alice, booking_details ''BK0002'' bob],
             bl_total_count = 2, bl_success = None, bl_error = None\<rparr>,
            start [(''BK0001'', alice), (''BK0002'', bob)])"
proof -
  let ?bm = "fixed_manager (Inr []) :: ledger booking_manager"
  let ?st = "start [(''BK0001'', alice), (''BK0002'', bob)]"
  have l: "bookings ?bm (mgr_state ?st) = [(''BK0001'', alice), (''BK0002'', bob)]"
    by (simp add: fixed_manager_def start_def)
  have a: "dict_get alice ''status'' (PStr []) = PStr ''confirmed''"
    and b: "dict_get bob ''status'' (PStr []) = PStr ''cancelled''"
    by (simp_all add: dict_get_def alice_def bob_def)
  have ad: "dict_get alice ''date'' (PStr []) = PStr ''2024-06-01''"
    and bd: "dict_get bob ''date'' (PStr []) = PStr ''2024-06-02''"
    by (simp_all add: dict_get_def alice_def bob_def)
  have h: "truthy status \<longrightarrow>
             (\<forall>(booking_id, details) \<in> set (bookings ?bm (mgr_state ?st)).
                \<exists>t. dict_get details ''status'' (PStr []) = PStr t)" for status
    by (simp add: l a b)
  have low: "lower ''CONFIRMED'' = ''confirmed''" "lower ''confirmed'' = ''confirmed''"
    "lower ''cancelled'' = ''cancelled''"
    by (simp_all add: lower_def lower_char_def is_upper_def)
  have t: "truthy (Some ''CONFIRMED'')" by (simp add: truthy_def)
  have r1: "list_bookings ?bm (Some ''CONFIRMED'') (Some ''2024-06-01'') ?st
     = Inr (\<lparr>bl_bookings = [booking_details ''BK0001'' alice], bl_total_count = 1,
             bl_success = None, bl_error = None\<rparr>, ?st)"
    using list_bookings_filters [OF h, of "Some ''CONFIRMED''" "Some ''2024-06-01''"]
    by (simp add: l status_matches_def date_matches_def a b ad bd low)
  have r2: "list_bookings ?bm None None ?st
     = Inr (\<lparr>bl_bookings = [booking_details ''BK0001'' alice, booking_details ''BK0002'' bob],
             bl_total_count = 2, bl_success = None, bl_error = None\<rparr>, ?st)"
    using list_bookings_filters [OF h, of None None]
    by (simp add: l status_matches_def date_matches_def)
  from t a b r1 r2 show ?thesis by blast
qed

text \<open>
  C7 as stated fails for a filter that is supplied as the empty text: the record with status
  \<^verbatim>\<open>confirmed\<close> is listed under the status filter \<^verbatim>\<open>''\<close>, which it does not match, and the
  record dated \<^verbatim>\<open>2024-06-01\<close> is listed under the date filter \<^verbatim>\<open>''\<close>, which it does not equal.
\<close>

theorem list_bookings_empty_filter_counterexample:
  "list_bookings (fixed_manager (Inr [])) (Some []) None (start [(''BK0001'', alice)])
     = Inr (\<lparr>bl_bookings = [booking_details ''BK0001'' alice], bl_total_count = 1,
             bl_success = None, bl_error = None\<rparr>,
            start [(''BK0001'', alice)]) \<and>
   dict_get alice ''status'' (PStr []) = PStr ''confirmed'' \<and>
   lower ''confirmed'' \<noteq> lower [] \<and>
   list_bookings (fixed_manager (Inr [])) None (Some []) (start [(''BK0001'', alice)])
     = Inr (\<lparr>bl_bookings = [booking_details ''BK0001'' alice], bl_total_count = 1,
             bl_success = None, bl_error = None\<rparr>,
            start [(''BK0001'', alice)]) \<and>
   dict_get alice ''date'' (PStr []) \<noteq> PStr []"
  by (simp add: list_bookings_def fixed_manager_def start_def status_skips_def date_skips_def
        truthy_def and_then_def dict_get_def alice_def lower_def)

section \<open>The query engine of the design\<close>

lemma contains_Nil_needle: "contains [] hay"
  by (simp add: contains_sublist)

lemma matches_query_empty: "matches_query [] b"
  by (simp add: matches_query_def lower_def contains_Nil_needle)

lemma filter_matches_query_empty: "filter (matches_query []) ledger = ledger"
  by (simp add: matches_query_empty)

text \<open>
  C6. \<open>search\<close> with the empty text as query returns the empty sequence, whatever the
  ledger holds. (Every booking contains the empty text, so it is the guard on the query that
  keeps the ledger from being returned whole.)
\<close>

theorem search_empty_query: "search [] ledger = []"
  by (simp add: search_def)

text \<open>
  C5. For every ledger \<open>stats\<close> returns a record, never a fault; its \<open>success_rate\<close> is
  \<open>confirmed_count / total * 100\<close> when there are bookings and \<open>0\<close> when \<open>total\<close> is \<open>0\<close>; on
  the empty ledger in particular it is \<open>0\<close>.
\<close>

theorem stats_success_rate:
  "\<exists>s. stats today ledger = Inr s \<and>
       total s = length ledger \<and>
       confirmed_count s = length (filter (\<lambda>b. bk_status b = Confirmed) ledger) \<and>
       st_success_rate s =
         (if total s = 0 then 0 else of_nat (confirmed_count s) / of_nat (total s) * 100) \<and>
       (ledger = [] \<longrightarrow> st_success_rate s = 0)"
  by (cases ledger) (simp_all add: stats_def true_div_def and_then_def Let_def)

theorem stats_success_rate_witness:
  "stats ''2024-06-01'' [] =
     Inr \<lparr>total = 0, confirmed_count = 0, cancelled_count = 0, st_total_guests = 0,
          today_count = 0, st_success_rate = 0\<rparr> \<and>
   (\<exists>s. stats ''2024-06-01''
           [\<lparr>bk_id = ''BK0001'', bk_name = ''Alice'', bk_contact = ''a@x.com'',
             bk_date = ''2024-06-01'', bk_time = ''19:00'', bk_guests = 2,
             bk_special_requirements = [], bk_status = Cancelled, bk_created_at = 1,
             bk_modified_at = None, bk_cancelled_at = Some 3\<rparr>,
            \<lparr>bk_id = ''BK0002'', bk_name = ''Bob'', bk_contact = ''b@x.com'',
             bk_date = ''2024-06-02'', bk_time = ''20:00'', bk_guests = 3,
             bk_special_requirements = ''window'', bk_status = Confirmed, bk_created_at = 2,
             bk_modified_at = None, bk_cancelled_at = None\<rparr>] = Inr s \<and>
        total s = 2 \<and> confirmed_count s = 1 \<and> st_success_rate s = 50)"
proof -
  let ?l = "[\<lparr>bk_id = ''BK0001'', bk_name = ''Alice'', bk_contact = ''a@x.com'',
             bk_date = ''2024-06-01'', bk_time = ''19:00'', bk_guests = 2,
             bk_special_requirements = [], bk_status = Cancelled, bk_created_at = 1,
             bk_modified_at = None, bk_cancelled_at = Some 3\<rparr>,
            \<lparr>bk_id = ''BK0002'', bk_name = ''Bob'', bk_contact = ''b@x.com'',
             bk_date = ''2024-06-02'', bk_time = ''20:00'', bk_guests = 3,
             bk_special_requirements = ''window'', bk_status = Confirmed, bk_created_at = 2,
             bk_modified_at = None, bk_cancelled_at = None\<rparr>]"
  have e: "stats ''2024-06-01'' [] =
     Inr \<lparr>total = 0, confirmed_count = 0, cancelled_count = 0, st_total_guests = 0,
          today_count = 0, st_success_rate = 0\<rparr>"
    using stats_success_rate [of "''2024-06-01''" "[]"]
    by (simp add: stats_def and_then_def)
  from stats_success_rate [of "''2024-06-01''" ?l] obtain s where
    s: "stats ''2024-06-01'' ?l = Inr s" "total s = length ?l"
       "confirmed_count s = length (filter (\<lambda>b. bk_status b = Confirmed) ?l)"
       "st_success_rate s =
         (if total s = 0 then 0 else of_nat (confirmed_count s) / of_nat (total s) * 100)"
    by blast
  from s(2,3) have c: "total s = 2" "confirmed_count s = 1" by simp_all
  with s(4) have "st_success_rate s = 50" by simp
  with s(1) c e show ?thesis by blast
qed

section \<open>Reading the statistics\<close>

subsection \<open>Splitting and stripping\<close>













subsection \<open>One labelled line\<close>










subsection \<open>The whole text\<close>





subsection \<open>The handler\<close>








end
